theory Spec2Isabelle
  imports Main "HOL-Library.Sublist"
begin

section \<open>The world of lambda_function.py\<close>

text \<open>
  The program is a pipeline of calls into libraries and command-line tools around a few
  lines of branching. The embedding keeps the branching and the exception handling of
  the source and takes the collaborators as parameters:
  \<^item> a file system is a map from paths to contents; \<open>os.path.exists\<close>, \<open>os.rename\<close>,
    \<open>os.remove\<close>, \<open>os.unlink\<close> and \<open>open(..., 'rb').read()\<close> act on that map and raise
    exactly where Python raises on a missing file;
  \<^item> what a library or a tool answers (ReportLab, facturx, \<open>json.loads\<close>, the \<open>gs\<close> and
    \<open>pdffonts\<close> processes) is a field of the record \<open>env\<close>: any of them may raise;
  \<^item> a process is given its argument vector and the contents of the input files that the
    vector names, and it may write the one output file that the vector names;
  \<^item> an exception is a value: a function that may raise returns \<open>exn + 'a\<close>;
  \<^item> the logger is not modelled (its calls have no effect on any result).
  A byte string is a list of bytes, and a text is a list of characters with code points
  below 256.
\<close>

type_synonym path = string
type_synonym bytes = string
type_synonym fs = "path \<rightharpoonup> bytes"

datatype exn = Exc (exc_class: string) (exc_msg: string)

text \<open>
  A Python \<open>float\<close>: \<open>Finite m e\<close> is the number \<open>m * 2 ^ e\<close> (every finite double is of
  this form), \<open>Infinite negative\<close> is an infinity with its sign.
\<close>

datatype pyfloat = Finite int int | NaN | Infinite bool

text \<open>
  The values that \<open>json.loads\<close> returns: \<open>JNum\<close> is an \<open>int\<close>, \<open>JFloat\<close> a \<open>float\<close> (a
  number written with a fraction or an exponent, and \<open>NaN\<close>, \<open>Infinity\<close> and \<open>-Infinity\<close>,
  which the library accepts).
\<close>

datatype json =
    JNull
  | JBool bool
  | JNum int
  | JFloat pyfloat
  | JStr string
  | JArr "json list"
  | JObj "(string \<times> json) list"

datatype completed = Completed (returncode: int) (stdout: string)

record env =
  run_tool :: "string list \<Rightarrow> bytes option list \<Rightarrow> (exn + completed) \<times> bytes option"
  canvas_pdf :: "path \<Rightarrow> exn + bytes"
  register_font :: "string \<Rightarrow> path \<Rightarrow> exn option"
  tempfile_stem :: path
  json_loads :: "string \<Rightarrow> exn + json"
  generate_from_binary :: "bytes \<Rightarrow> bytes \<Rightarrow> json \<Rightarrow> json \<Rightarrow> json \<Rightarrow> exn + bytes"

subsection \<open>try / except\<close>

definition try_except :: "exn + 'a \<Rightarrow> (exn \<Rightarrow> exn + 'a) \<Rightarrow> exn + 'a" where
  "try_except r handler = (case r of Inl e \<Rightarrow> handler e | Inr v \<Rightarrow> Inr v)"

subsection \<open>Files\<close>

definition os_path_exists :: "path \<Rightarrow> fs \<Rightarrow> bool" where
  "os_path_exists p fs = (fs p \<noteq> None)"

definition file_not_found :: "path \<Rightarrow> exn" where
  "file_not_found p = Exc ''FileNotFoundError'' (''[Errno 2] No such file or directory: '' @ p)"

definition os_rename :: "path \<Rightarrow> path \<Rightarrow> fs \<Rightarrow> (exn + unit) \<times> fs" where
  "os_rename src dst fs =
     (case fs src of
        None \<Rightarrow> (Inl (file_not_found src), fs)
      | Some b \<Rightarrow> (Inr (), (fs(src := None))(dst \<mapsto> b)))"

definition os_remove :: "path \<Rightarrow> fs \<Rightarrow> (exn + unit) \<times> fs" where
  "os_remove p fs =
     (case fs p of
        None \<Rightarrow> (Inl (file_not_found p), fs)
      | Some b \<Rightarrow> (Inr (), fs(p := None)))"

definition read_file :: "path \<Rightarrow> fs \<Rightarrow> exn + bytes" where
  "read_file p fs = (case fs p of None \<Rightarrow> Inl (file_not_found p) | Some b \<Rightarrow> Inr b)"

subsection \<open>subprocess.run(cmd, check=True)\<close>

text \<open>
  \<open>ins\<close> are the input files named in \<open>cmd\<close>, \<open>out\<close> the output file named there (if
  any). The process may fail to start (\<open>Inl\<close>), or complete with a return code; with
  \<open>check=True\<close> a return code other than 0 raises CalledProcessError (whose message is
  only ever logged).
\<close>

definition called_process_error :: exn where
  "called_process_error = Exc ''CalledProcessError'' ''Command returned non-zero exit status''"

definition subprocess_run ::
  "env \<Rightarrow> string list \<Rightarrow> path list \<Rightarrow> path option \<Rightarrow> fs \<Rightarrow> (exn + string) \<times> fs" where
  "subprocess_run env cmd ins out fs =
     (case run_tool env cmd (map fs ins) of
        (r, w) \<Rightarrow>
          (case r of
             Inl e \<Rightarrow> Inl e
           | Inr c \<Rightarrow> if returncode c = 0 then Inr (stdout c) else Inl called_process_error,
           case out of
             None \<Rightarrow> fs
           | Some p \<Rightarrow> (case w of None \<Rightarrow> fs | Some b \<Rightarrow> fs(p \<mapsto> b))))"

subsection \<open>Python string operations\<close>

text \<open>
  \<open>str.isspace\<close> on a code point below 256: TAB to CR, FS to US, the space, NEL (0x85)
  and the no-break space (0xA0).
\<close>

definition py_isspace :: "char \<Rightarrow> bool" where
  "py_isspace c = (of_char c \<in> {9, 10, 11, 12, 13, 28, 29, 30, 31, 32, 133, 160 :: nat})"

text \<open>
  \<open>str.lower\<close> on a code point below 256: the letters A to Z, and the accented capitals
  0xC0 to 0xDE without the multiplication sign 0xD7, move up by 32.
\<close>

definition py_lower_char :: "char \<Rightarrow> char" where
  "py_lower_char c =
     (let n = of_char c :: nat
      in if (65 \<le> n \<and> n \<le> 90) \<or> (192 \<le> n \<and> n \<le> 222 \<and> n \<noteq> 215) then char_of (n + 32)
         else c)"

definition py_lower :: "string \<Rightarrow> string" where
  "py_lower s = map py_lower_char s"

definition py_strip :: "string \<Rightarrow> string" where
  "py_strip s = rev (dropWhile py_isspace (rev (dropWhile py_isspace s)))"

text \<open>\<open>s.split(d)\<close> for a one-character separator: empty fields are kept.\<close>

fun split_on :: "char \<Rightarrow> string \<Rightarrow> string \<Rightarrow> string list" where
  "split_on d cur [] = [cur]"
| "split_on d cur (c # cs) =
     (if c = d then cur # split_on d [] cs else split_on d (cur @ [c]) cs)"

definition py_split_char :: "char \<Rightarrow> string \<Rightarrow> string list" where
  "py_split_char d s = split_on d [] s"

text \<open>\<open>s.split()\<close>: fields are separated by runs of whitespace, none is empty.\<close>

fun split_ws :: "string \<Rightarrow> string \<Rightarrow> string list" where
  "split_ws tok [] = (if tok = [] then [] else [tok])"
| "split_ws tok (c # cs) =
     (if py_isspace c then (if tok = [] then split_ws [] cs else tok # split_ws [] cs)
      else split_ws (tok @ [c]) cs)"

definition py_split :: "string \<Rightarrow> string list" where
  "py_split s = split_ws [] s"

text \<open>\<open>needle in haystack\<close> on strings.\<close>

fun py_in :: "string \<Rightarrow> string \<Rightarrow> bool" where
  "py_in needle [] = (needle = [])"
| "py_in needle (c # cs) = (prefix needle (c # cs) \<or> py_in needle cs)"

section \<open>analyze_fonts_in_pdf\<close>

definition gs_fontinfo_cmd :: "path \<Rightarrow> string list" where
  "gs_fontinfo_cmd pdf_path =
     [''gs'', ''-q'', ''-dNODISPLAY'', ''-dNOSAFER'', ''-c'',
      ''('' @ pdf_path @ '') (r) file runpdfbegin pdfdict /FontInfo knownoget { == } if pdfclose quit'']"

text \<open>
  The body of the loop over the lines of the \<open>pdffonts\<close> table: the name that the line
  adds to \<open>non_embedded_fonts\<close>, if it adds one.
\<close>

definition non_embedded_font :: "string \<Rightarrow> string option" where
  "non_embedded_font line =
     (if py_strip line \<noteq> [] then
        (let parts = py_split line in
         if length parts \<ge> 8 \<and> py_in ''no'' (py_lower (parts ! 7)) then Some (parts ! 0)
         else None)
      else None)"

text \<open>
  The set \<open>non_embedded_fonts\<close> is kept as a list without duplicates; the order in which
  Python iterates over a set is not fixed, and nothing below depends on it.
\<close>

definition parse_pdffonts :: "string \<Rightarrow> string list" where
  "parse_pdffonts font_details =
     remdups (List.map_filter non_embedded_font (drop 2 (py_split_char (CHR 0x0A) font_details)))"

definition analyze_fonts_in_pdf :: "env \<Rightarrow> path \<Rightarrow> fs \<Rightarrow> exn + string list" where
  "analyze_fonts_in_pdf env pdf_path fs =
     try_except
       (case fst (subprocess_run env (gs_fontinfo_cmd pdf_path) [pdf_path] None fs) of
          Inl e \<Rightarrow> Inl e
        | Inr font_info \<Rightarrow>
            try_except
              (case fst (subprocess_run env [''pdffonts'', pdf_path] [pdf_path] None fs) of
                 Inl e \<Rightarrow> Inl e
               | Inr font_details \<Rightarrow> Inr (parse_pdffonts font_details))
              (\<lambda>e. Inr []))
       (\<lambda>e. Inr [])"

section \<open>register_liberation_fonts\<close>

definition liberation_fonts :: "(string \<times> string \<times> path) list" where
  "liberation_fonts =
     [(''regular'', ''LiberationSans'', ''python/fonts/LiberationSans-Regular.ttf''),
      (''bold'', ''LiberationSans-Bold'', ''python/fonts/LiberationSans-Bold.ttf''),
      (''italic'', ''LiberationSans-Italic'', ''python/fonts/LiberationSans-Italic.ttf''),
      (''bolditalic'', ''LiberationSans-BoldItalic'', ''python/fonts/LiberationSans-BoldItalic.ttf'')]"

text \<open>
  One round of the loop: the entry that the style adds to \<open>font_mapping\<close>, if any. An
  exception of \<open>registerFont\<close> is caught and logged.
\<close>

definition register_one :: "env \<Rightarrow> fs \<Rightarrow> string \<times> string \<times> path \<Rightarrow> (string \<times> string) option" where
  "register_one env fs entry =
     (case entry of
        (style, font_name, font_path) \<Rightarrow>
          if os_path_exists font_path fs then
            (case register_font env font_name font_path of
               None \<Rightarrow> Some (style, font_name)
             | Some e \<Rightarrow> None)
          else None)"

definition register_liberation_fonts :: "env \<Rightarrow> fs \<Rightarrow> (string \<times> string) list" where
  "register_liberation_fonts env fs = List.map_filter (register_one env fs) liberation_fonts"

section \<open>create_pdf_with_icc_profiles\<close>

definition srgb_profile :: path where
  "srgb_profile = ''python/icc_profiles/sRGB.icc''"

definition gray_profile :: path where
  "gray_profile = ''python/icc_profiles/Gray.icc''"

definition icc_cmd :: "path \<Rightarrow> path \<Rightarrow> string list" where
  "icc_cmd output_path temp_output =
     [''gs'', ''-dPDFA=3'', ''-dBATCH'', ''-dNOPAUSE'', ''-dQUIET'',
      ''-dPDFACompatibilityPolicy=1'',
      ''-sColorConversionStrategy=UseDeviceIndependentColor'',
      ''-sOutputICCProfile='' @ srgb_profile,
      ''-dPDFSETTINGS=/prepress'',
      ''-sDEVICE=pdfwrite'',
      ''-sOutputFile='' @ output_path,
      temp_output]"

text \<open>
  \<open>canvas_pdf env output_path\<close> is what \<open>canvas.Canvas(output_path)\<close>, the three setters
  and \<open>c.save()\<close> do: they write the placeholder to \<open>output_path\<close>, or raise. Nothing in
  the function catches what they raise, nor what the two \<open>os.rename\<close> calls outside the
  \<open>try\<close> block raise.
\<close>

definition create_pdf_with_icc_profiles :: "env \<Rightarrow> path \<Rightarrow> fs \<Rightarrow> (exn + unit) \<times> fs" where
  "create_pdf_with_icc_profiles env output_path fs =
     (case canvas_pdf env output_path of
        Inl e \<Rightarrow> (Inl e, fs)
      | Inr pdf \<Rightarrow>
          (let fs1 = fs(output_path \<mapsto> pdf) in
           if os_path_exists srgb_profile fs1 \<and> os_path_exists gray_profile fs1 then
             (let temp_output = output_path @ ''.temp.pdf'' in
              case os_rename output_path temp_output fs1 of
                (Inl e, fs2) \<Rightarrow> (Inl e, fs2)
              | (Inr u, fs2) \<Rightarrow>
                  (case subprocess_run env (icc_cmd output_path temp_output)
                          [srgb_profile, temp_output] (Some output_path) fs2 of
                     (Inr out, fs3) \<Rightarrow>
                       (case os_remove temp_output fs3 of
                          (Inr u, fs4) \<Rightarrow> (Inr (), fs4)
                        | (Inl e, fs4) \<Rightarrow> os_rename temp_output output_path fs4)
                   | (Inl e, fs3) \<Rightarrow> os_rename temp_output output_path fs3))
           else (Inr (), fs1)))"

section \<open>enhance_pdf_for_compliance\<close>

definition substitute_font :: "string \<Rightarrow> string" where
  "substitute_font font = ''-dSubstituteFontName=/'' @ font @ ''/LiberationSans''"

definition wants_substitution :: "string \<Rightarrow> bool" where
  "wants_substitution font =
     (py_in ''helvetica'' (py_lower font) \<or> py_in ''arial'' (py_lower font))"

text \<open>The list \<open>gs_cmd\<close> as it stands when \<open>subprocess.run\<close> is called.\<close>

definition gs_cmd :: "path \<Rightarrow> path \<Rightarrow> string list \<Rightarrow> string list" where
  "gs_cmd temp_in_path final_pdf_path non_embedded_fonts =
     [''gs'', ''-dPDFA=3'', ''-dBATCH'', ''-dNOPAUSE'', ''-dQUIET'',
      ''-dPDFACompatibilityPolicy=1'',
      ''-dPDFSETTINGS=/prepress'',
      ''-sDEVICE=pdfwrite'']
     @ (if non_embedded_fonts \<noteq> []
        then map substitute_font (filter wants_substitution non_embedded_fonts) else [])
     @ [''-sOutputFile='' @ final_pdf_path, temp_in_path]"

text \<open>The inner \<open>try\<close>: the rewrite and the read of its output; any exception gives the input back.\<close>

definition final_rewrite ::
  "env \<Rightarrow> string list \<Rightarrow> path \<Rightarrow> path \<Rightarrow> bytes \<Rightarrow> fs \<Rightarrow> (exn + bytes) \<times> fs" where
  "final_rewrite env cmd temp_in_path final_pdf_path input_pdf_bytes fs =
     (case subprocess_run env cmd [temp_in_path] (Some final_pdf_path) fs of
        (r, fs') \<Rightarrow>
          (try_except
             (case r of Inl e \<Rightarrow> Inl e | Inr out \<Rightarrow> read_file final_pdf_path fs')
             (\<lambda>e. Inr input_pdf_bytes),
           fs'))"

text \<open>The outer \<open>try\<close> block, without its \<open>finally\<close>.\<close>

definition enhance_body :: "env \<Rightarrow> bytes \<Rightarrow> path \<Rightarrow> path \<Rightarrow> fs \<Rightarrow> (exn + bytes) \<times> fs" where
  "enhance_body env input_pdf_bytes temp_in_path temp_out_path fs =
     (let font_mapping = register_liberation_fonts env fs in
      case analyze_fonts_in_pdf env temp_in_path fs of
        Inl e \<Rightarrow> (Inl e, fs)
      | Inr non_embedded_fonts \<Rightarrow>
          (case create_pdf_with_icc_profiles env temp_out_path fs of
             (Inl e, fs') \<Rightarrow> (Inl e, fs')
           | (Inr u, fs') \<Rightarrow>
               (let final_pdf_path = temp_in_path @ ''.final.pdf'' in
                final_rewrite env (gs_cmd temp_in_path final_pdf_path non_embedded_fonts)
                  temp_in_path final_pdf_path input_pdf_bytes fs')))"

text \<open>
  The \<open>finally\<close> block: \<open>os.unlink\<close> of each path that exists; an exception of
  \<open>os.unlink\<close> is swallowed.
\<close>

fun cleanup :: "path list \<Rightarrow> fs \<Rightarrow> fs" where
  "cleanup [] fs = fs"
| "cleanup (p # ps) fs =
     cleanup ps (if os_path_exists p fs then snd (os_remove p fs) else fs)"

text \<open>
  \<open>NamedTemporaryFile(suffix='.pdf', delete=False)\<close> makes a file whose name is a stem
  chosen by the system followed by the suffix.
\<close>

definition enhance_pdf_for_compliance :: "env \<Rightarrow> bytes \<Rightarrow> fs \<Rightarrow> (exn + bytes) \<times> fs" where
  "enhance_pdf_for_compliance env input_pdf_bytes fs =
     (let temp_in_path = tempfile_stem env @ ''.pdf'';
          fs1 = fs(temp_in_path \<mapsto> input_pdf_bytes);
          temp_out_path = temp_in_path @ ''.enhanced.pdf''
      in case enhance_body env input_pdf_bytes temp_in_path temp_out_path fs1 of
           (r, fs2) \<Rightarrow>
             (r, cleanup [temp_in_path, temp_out_path, temp_in_path @ ''.final.pdf''] fs2))"

text \<open>
  The stage with the call of \<open>create_pdf_with_icc_profiles\<close> taken out, everything else
  as in \<open>enhance_body\<close> and \<open>enhance_pdf_for_compliance\<close>.
\<close>

definition enhance_body_without_icc :: "env \<Rightarrow> bytes \<Rightarrow> path \<Rightarrow> path \<Rightarrow> fs \<Rightarrow> (exn + bytes) \<times> fs" where
  "enhance_body_without_icc env input_pdf_bytes temp_in_path temp_out_path fs =
     (let font_mapping = register_liberation_fonts env fs in
      case analyze_fonts_in_pdf env temp_in_path fs of
        Inl e \<Rightarrow> (Inl e, fs)
      | Inr non_embedded_fonts \<Rightarrow>
          (let final_pdf_path = temp_in_path @ ''.final.pdf'' in
           final_rewrite env (gs_cmd temp_in_path final_pdf_path non_embedded_fonts)
             temp_in_path final_pdf_path input_pdf_bytes fs))"

definition enhance_without_icc :: "env \<Rightarrow> bytes \<Rightarrow> fs \<Rightarrow> (exn + bytes) \<times> fs" where
  "enhance_without_icc env input_pdf_bytes fs =
     (let temp_in_path = tempfile_stem env @ ''.pdf'';
          fs1 = fs(temp_in_path \<mapsto> input_pdf_bytes);
          temp_out_path = temp_in_path @ ''.enhanced.pdf''
      in case enhance_body_without_icc env input_pdf_bytes temp_in_path temp_out_path fs1 of
           (r, fs2) \<Rightarrow>
             (r, cleanup [temp_in_path, temp_out_path, temp_in_path @ ''.final.pdf''] fs2))"

section \<open>base64.b64encode and base64.b64decode\<close>

text \<open>
  The two library functions as the handler calls them: the standard alphabet with \<open>=\<close>
  padding, and the decoder of \<open>binascii.a2b_base64\<close> in its default, non-strict mode
  (characters outside the alphabet are skipped; the states are the variables
  \<open>quad_pos\<close>, \<open>leftchar\<close> and \<open>pads\<close> of the C loop).
\<close>

definition b64_alphabet :: string where
  "b64_alphabet = ''ABCDEFGHIJKLMNOPQRSTUVWXYZabcdefghijklmnopqrstuvwxyz0123456789+/''"

definition b64_char :: "nat \<Rightarrow> char" where
  "b64_char i = b64_alphabet ! i"

definition b64_index :: "char \<Rightarrow> nat option" where
  "b64_index c = map_of (zip b64_alphabet [0..<64]) c"

fun b64encode :: "bytes \<Rightarrow> string" where
  "b64encode [] = []"
| "b64encode [a] =
     (let x = of_char a :: nat
      in [b64_char (x div 4), b64_char ((x mod 4) * 16), CHR ''='', CHR ''=''])"
| "b64encode [a, b] =
     (let x = of_char a :: nat; y = of_char b :: nat
      in [b64_char (x div 4), b64_char ((x mod 4) * 16 + y div 16),
          b64_char ((y mod 16) * 4), CHR ''=''])"
| "b64encode (a # b # c # rest) =
     (let x = of_char a :: nat; y = of_char b :: nat; z = of_char c :: nat
      in b64_char (x div 4) # b64_char ((x mod 4) * 16 + y div 16) #
         b64_char ((y mod 16) * 4 + z div 64) # b64_char (z mod 64) # b64encode rest)"

function show_nat :: "nat \<Rightarrow> string" where
  "show_nat n =
     (if n < 10 then [char_of (48 + n)] else show_nat (n div 10) @ [char_of (48 + n mod 10)])"
  by pat_completeness auto
termination
  by (relation "measure id") auto

definition binascii_error :: "string \<Rightarrow> exn" where
  "binascii_error m = Exc ''binascii.Error'' m"

fun a2b_base64 :: "string \<Rightarrow> nat \<Rightarrow> nat \<Rightarrow> nat \<Rightarrow> bytes \<Rightarrow> exn + bytes" where
  "a2b_base64 [] quad_pos leftchar pads out =
     (if quad_pos = 0 then Inr out
      else if quad_pos = 1 then
        Inl (binascii_error
              (''Invalid base64-encoded string: number of data characters (''
               @ show_nat (length out div 3 * 4 + 1)
               @ '') cannot be 1 more than a multiple of 4''))
      else Inl (binascii_error ''Incorrect padding''))"
| "a2b_base64 (c # cs) quad_pos leftchar pads out =
     (if c = CHR ''='' then
        (if quad_pos \<ge> 2 \<and> quad_pos + (pads + 1) \<ge> 4 then Inr out
         else a2b_base64 cs quad_pos leftchar (if quad_pos \<ge> 2 then pads + 1 else pads) out)
      else
        (case b64_index c of
           None \<Rightarrow> a2b_base64 cs quad_pos leftchar pads out
         | Some this_ch \<Rightarrow>
             (if quad_pos = 0 then a2b_base64 cs 1 this_ch 0 out
              else if quad_pos = 1 then
                a2b_base64 cs 2 (this_ch mod 16) 0 (out @ [char_of (leftchar * 4 + this_ch div 16)])
              else if quad_pos = 2 then
                a2b_base64 cs 3 (this_ch mod 4) 0 (out @ [char_of (leftchar * 16 + this_ch div 4)])
              else a2b_base64 cs 0 0 0 (out @ [char_of (leftchar * 64 + this_ch)]))))"

text \<open>\<open>base64.b64decode(s)\<close> for a \<open>str\<close>: the string is encoded as ASCII first.\<close>

definition b64decode :: "string \<Rightarrow> exn + bytes" where
  "b64decode s =
     (if list_ex (\<lambda>c. (128 :: nat) \<le> of_char c) s
      then Inl (Exc ''ValueError'' ''string argument should contain only ASCII characters'')
      else a2b_base64 s 0 0 0 [])"

section \<open>lambda_handler\<close>

subsection \<open>Python values that come out of JSON\<close>

definition py_type_name :: "json \<Rightarrow> string" where
  "py_type_name v =
     (case v of JNull \<Rightarrow> ''NoneType'' | JBool b \<Rightarrow> ''bool'' | JNum n \<Rightarrow> ''int''
      | JFloat x \<Rightarrow> ''float'' | JStr s \<Rightarrow> ''str'' | JArr xs \<Rightarrow> ''list'' | JObj kvs \<Rightarrow> ''dict'')"

text \<open>A float is false exactly when it is zero; NaN and the infinities are true.\<close>

definition float_nonzero :: "pyfloat \<Rightarrow> bool" where
  "float_nonzero x = (case x of Finite m e \<Rightarrow> m \<noteq> 0 | NaN \<Rightarrow> True | Infinite negative \<Rightarrow> True)"

text \<open>\<open>not v\<close> is \<open>\<not> py_truthy v\<close>.\<close>

definition py_truthy :: "json \<Rightarrow> bool" where
  "py_truthy v =
     (case v of JNull \<Rightarrow> False | JBool b \<Rightarrow> b | JNum n \<Rightarrow> n \<noteq> 0
      | JFloat x \<Rightarrow> float_nonzero x | JStr s \<Rightarrow> s \<noteq> [] | JArr xs \<Rightarrow> xs \<noteq> [] | JObj kvs \<Rightarrow> kvs \<noteq> [])"

definition py_len :: "json \<Rightarrow> exn + nat" where
  "py_len v =
     (case v of
        JStr s \<Rightarrow> Inr (length s)
      | JArr xs \<Rightarrow> Inr (length xs)
      | JObj kvs \<Rightarrow> Inr (length kvs)
      | _ \<Rightarrow> Inl (Exc ''TypeError''
                 (''object of type '' @ [CHR 0x27] @ py_type_name v @ [CHR 0x27]
                  @ '' has no len()'')))"

definition b64decode_value :: "json \<Rightarrow> exn + bytes" where
  "b64decode_value v =
     (case v of
        JStr s \<Rightarrow> b64decode s
      | _ \<Rightarrow> Inl (Exc ''TypeError''
                 (''argument should be a bytes-like object or ASCII string, not ''
                  @ [CHR 0x27] @ py_type_name v @ [CHR 0x27])))"

text \<open>\<open>d.get(key, default)\<close> on a dict.\<close>

definition py_get :: "(string \<times> json) list \<Rightarrow> string \<Rightarrow> json \<Rightarrow> json" where
  "py_get d key dflt = (case map_of d key of None \<Rightarrow> dflt | Some v \<Rightarrow> v)"

text \<open>
  \<open>json.loads\<close>: of the text \<open>{}\<close> it is the empty dict, of any other text what the
  library answers, and of a value that is not text a TypeError.
\<close>

definition py_json_loads :: "env \<Rightarrow> json \<Rightarrow> exn + json" where
  "py_json_loads env v =
     (case v of
        JStr s \<Rightarrow> if s = ''{}'' then Inr (JObj []) else json_loads env s
      | _ \<Rightarrow> Inl (Exc ''TypeError''
                 (''the JSON object must be str, bytes or bytearray, not '' @ py_type_name v)))"

subsection \<open>Responses\<close>

text \<open>The member \<open>body\<close> is the value handed to \<open>json.dumps\<close>.\<close>

record response =
  statusCode :: int
  headers :: "(string \<times> string) list"
  body :: json

definition cors_headers :: "(string \<times> string) list" where
  "cors_headers =
     [(''Content-Type'', ''application/json''), (''Access-Control-Allow-Origin'', ''*'')]"

definition error_response :: "int \<Rightarrow> string \<Rightarrow> response" where
  "error_response code msg =
     \<lparr>statusCode = code, headers = cors_headers, body = JObj [(''error'', JStr msg)]\<rparr>"

definition success_response :: "string \<Rightarrow> response" where
  "success_response result_base64 =
     \<lparr>statusCode = 200, headers = cors_headers,
      body = JObj [(''pdfBase64'', JStr result_base64),
                   (''message'',
                    JStr ''Factur-X PDF generated successfully with enhanced compliance'')]\<rparr>"

subsection \<open>The handler\<close>

text \<open>
  What follows the validation of the inputs, up to the success response: each step may
  raise, and the first exception ends the block.
\<close>

definition process_request ::
  "env \<Rightarrow> json \<Rightarrow> json \<Rightarrow> json \<Rightarrow> json \<Rightarrow> json \<Rightarrow> fs \<Rightarrow> (exn + response) \<times> fs" where
  "process_request env pdf_base64 xml_base64 check_xsd flavor level fs =
     (case py_len pdf_base64 of
        Inl e \<Rightarrow> (Inl e, fs)
      | Inr n \<Rightarrow>
     (case py_len xml_base64 of
        Inl e \<Rightarrow> (Inl e, fs)
      | Inr m \<Rightarrow>
     (case b64decode_value pdf_base64 of
        Inl e \<Rightarrow> (Inl e, fs)
      | Inr pdf_binary \<Rightarrow>
     (case b64decode_value xml_base64 of
        Inl e \<Rightarrow> (Inl e, fs)
      | Inr xml_binary \<Rightarrow>
     (case generate_from_binary env pdf_binary xml_binary check_xsd flavor level of
        Inl e \<Rightarrow> (Inl e, fs)
      | Inr facturx_pdf \<Rightarrow>
     (case enhance_pdf_for_compliance env facturx_pdf fs of
        (Inl e, fs') \<Rightarrow> (Inl e, fs')
      | (Inr enhanced_pdf, fs') \<Rightarrow>
          (Inr (success_response (b64encode enhanced_pdf)), fs')))))))"

text \<open>\<open>json.loads(event.get('body', '{}'))\<close>\<close>

definition parse_body :: "env \<Rightarrow> (string \<rightharpoonup> json) \<Rightarrow> exn + json" where
  "parse_body env event =
     py_json_loads env (case event ''body'' of None \<Rightarrow> JStr ''{}'' | Some v \<Rightarrow> v)"

text \<open>The \<open>try\<close> block of the handler.\<close>

definition handler_body :: "env \<Rightarrow> (string \<rightharpoonup> json) \<Rightarrow> fs \<Rightarrow> (exn + response) \<times> fs" where
  "handler_body env event fs =
     (case parse_body env event of
        Inl e \<Rightarrow> (Inl e, fs)
      | Inr (JObj d) \<Rightarrow>
          (let pdf_base64 = py_get d ''pdfBase64'' (JStr []);
               xml_base64 = py_get d ''xmlBase64'' (JStr []);
               check_xsd = py_get d ''checkXsd'' (JBool True);
               flavor = py_get d ''flavor'' (JStr ''factur-x'');
               level = py_get d ''level'' (JStr ''en16931'')
           in if \<not> py_truthy pdf_base64 \<or> \<not> py_truthy xml_base64
              then (Inr (error_response 400 ''Missing PDF or XML data''), fs)
              else process_request env pdf_base64 xml_base64 check_xsd flavor level fs)
      | Inr v \<Rightarrow>
          (Inl (Exc ''AttributeError''
                 ([CHR 0x27] @ py_type_name v @ [CHR 0x27] @ '' object has no attribute ''
                  @ [CHR 0x27] @ ''get'' @ [CHR 0x27])), fs))"

text \<open>The handler: \<open>except Exception as e\<close> turns what the block raises into a 500.\<close>

definition lambda_handler :: "env \<Rightarrow> (string \<rightharpoonup> json) \<Rightarrow> fs \<Rightarrow> response \<times> fs" where
  "lambda_handler env event fs =
     (case handler_body env event fs of
        (Inr resp, fs') \<Rightarrow> (resp, fs')
      | (Inl e, fs') \<Rightarrow>
          (error_response 500 (''Failed to generate Factur-X PDF: '' @ exc_msg e), fs'))"

section \<open>Properties stated by the specification\<close>

subsection \<open>Vocabulary\<close>

text \<open>A tool invocation fails: the process cannot be started, or it exits with a code other than 0.\<close>

definition tool_fails :: "env \<Rightarrow> string list \<Rightarrow> bytes option list \<Rightarrow> bool" where
  "tool_fails env cmd ins =
     (case fst (run_tool env cmd ins) of Inl e \<Rightarrow> True | Inr c \<Rightarrow> returncode c \<noteq> 0)"

text \<open>A member of the request body is a non-empty string.\<close>

definition nonempty_string :: "json \<Rightarrow> bool" where
  "nonempty_string v = (case v of JStr s \<Rightarrow> s \<noteq> [] | _ \<Rightarrow> False)"

text \<open>The member \<open>pdfBase64\<close> of a response body, if it is a string.\<close>

definition response_pdf_base64 :: "response \<Rightarrow> string option" where
  "response_pdf_base64 r =
     (case body r of
        JObj d \<Rightarrow> (case map_of d ''pdfBase64'' of Some (JStr s) \<Rightarrow> Some s | _ \<Rightarrow> None)
      | _ \<Rightarrow> None)"

text \<open>The four paths that one run of the enhancement stage makes files at.\<close>

definition temp_paths :: "env \<Rightarrow> path list" where
  "temp_paths env =
     [tempfile_stem env @ ''.pdf'',
      tempfile_stem env @ ''.pdf'' @ ''.enhanced.pdf'',
      (tempfile_stem env @ ''.pdf'' @ ''.enhanced.pdf'') @ ''.temp.pdf'',
      tempfile_stem env @ ''.pdf'' @ ''.final.pdf'']"

subsection \<open>Sample worlds\<close>

text \<open>
  A table as \<open>pdffonts\<close> prints it: the columns are name, type, encoding, emb, sub, uni
  and object ID (two numbers). ArialMT and Helvetica are not embedded; ABCDEF+Foo is.
\<close>

definition pdffonts_table :: string where
  "pdffonts_table =
     ''name                                 type              encoding         emb sub uni object ID\<newline>'' @
     ''------------------------------------ ----------------- ---------------- --- --- --- ---------\<newline>'' @
     ''ArialMT                              TrueType          WinAnsi          no  no  no      12  0\<newline>'' @
     ''Helvetica                            Type 1            WinAnsi          no  no  no       8  0\<newline>'' @
     ''ABCDEF+Foo                           CID Type 0C       Identity-H       yes yes no      10  0\<newline>''"

definition sample_tool :: "string list \<Rightarrow> bytes option list \<Rightarrow> (exn + completed) \<times> bytes option" where
  "sample_tool cmd ins =
     (case cmd of
        [] \<Rightarrow> (Inl (Exc ''IndexError'' ''list index out of range''), None)
      | prog # args \<Rightarrow>
          if prog = ''pdffonts'' then (Inr (Completed 0 pdffonts_table), None)
          else (Inr (Completed 0 []), Some ''%PDF-1.7 rewritten''))"

definition sample_request :: string where
  \<open>sample_request = ''{"pdfBase64": "JVBERi0xLjQ=", "xmlBase64": "PGludm9pY2UvPg=="}''\<close>

definition sample_body :: json where
  "sample_body = JObj [(''pdfBase64'', JStr ''JVBERi0xLjQ=''), (''xmlBase64'', JStr ''PGludm9pY2UvPg=='')]"

definition number_request :: string where
  \<open>number_request = ''{"pdfBase64": 5, "xmlBase64": "PGludm9pY2UvPg=="}''\<close>

definition number_body :: json where
  "number_body = JObj [(''pdfBase64'', JNum 5), (''xmlBase64'', JStr ''PGludm9pY2UvPg=='')]"

definition padding_request :: string where
  \<open>padding_request = ''{"pdfBase64": "JVBERi0xLjQ", "xmlBase64": "PGludm9pY2UvPg=="}''\<close>

definition padding_body :: json where
  "padding_body = JObj [(''pdfBase64'', JStr ''JVBERi0xLjQ''), (''xmlBase64'', JStr ''PGludm9pY2UvPg=='')]"

definition empty_request :: string where
  \<open>empty_request = ''{"pdfBase64": "", "xmlBase64": "PGludm9pY2UvPg=="}''\<close>

definition empty_body :: json where
  "empty_body = JObj [(''pdfBase64'', JStr []), (''xmlBase64'', JStr ''PGludm9pY2UvPg=='')]"

text \<open>A payload with a character outside the base64 alphabet in it.\<close>

definition bang_request :: string where
  \<open>bang_request = ''{"pdfBase64": "JVBE!Ri0xLjQ=", "xmlBase64": "PGludm9pY2UvPg=="}''\<close>

definition bang_body :: json where
  "bang_body = JObj [(''pdfBase64'', JStr ''JVBE!Ri0xLjQ=''), (''xmlBase64'', JStr ''PGludm9pY2UvPg=='')]"

text \<open>A text that is not JSON (\<open>NaN\<close> is no JSON value) and that \<open>json.loads\<close> accepts.\<close>

definition nan_request :: string where
  \<open>nan_request = ''{"pdfBase64": "", "xmlBase64": NaN}''\<close>

definition nan_body :: json where
  "nan_body = JObj [(''pdfBase64'', JStr []), (''xmlBase64'', JFloat NaN)]"

definition sample_json_loads :: "string \<Rightarrow> exn + json" where
  "sample_json_loads s =
     (if s = sample_request then Inr sample_body
      else if s = number_request then Inr number_body
      else if s = padding_request then Inr padding_body
      else if s = empty_request then Inr empty_body
      else if s = bang_request then Inr bang_body
      else if s = nan_request then Inr nan_body
      else Inl (Exc ''JSONDecodeError'' ''Expecting value: line 1 column 1 (char 0)''))"

text \<open>A world in which every collaborator works.\<close>

definition world_ok :: env where
  "world_ok =
     \<lparr>run_tool = sample_tool,
      canvas_pdf = (\<lambda>p. Inr ''%PDF-1.3 placeholder''),
      register_font = (\<lambda>n p. None),
      tempfile_stem = ''/tmp/tmpk3v9'',
      json_loads = sample_json_loads,
      generate_from_binary = (\<lambda>pdf xml check_xsd flavor level. Inr (pdf @ xml))\<rparr>"

text \<open>The same world, but ReportLab cannot write the placeholder.\<close>

definition world_canvas_fails :: env where
  "world_canvas_fails =
     world_ok\<lparr>canvas_pdf := (\<lambda>p. Inl (Exc ''OSError'' ''[Errno 28] No space left on device''))\<rparr>"

text \<open>The same world, but no \<open>gs\<close> and no \<open>pdffonts\<close> is installed.\<close>

definition world_no_tools :: env where
  "world_no_tools =
     world_ok\<lparr>run_tool :=
       (\<lambda>cmd ins. (Inl (Exc ''FileNotFoundError'' ''[Errno 2] No such file or directory''), None))\<rparr>"

text \<open>The same world, but facturx rejects the invoice.\<close>

definition world_embed_fails :: env where
  "world_embed_fails =
     world_ok\<lparr>generate_from_binary :=
       (\<lambda>pdf xml check_xsd flavor level. Inl (Exc ''Exception'' ''The XML file is not valid''))\<rparr>"

definition request :: "string \<Rightarrow> (string \<rightharpoonup> json)" where
  "request text = [''body'' \<mapsto> JStr text]"

text \<open>A file system that holds the two ICC profiles.\<close>

definition disk_with_profiles :: fs where
  "disk_with_profiles = [srgb_profile \<mapsto> ''sRGB'', gray_profile \<mapsto> ''Gray'']"

subsection \<open>Evaluating the samples\<close>

lemmas py_defs = py_split_char_def py_split_def py_isspace_def py_strip_def py_lower_def
  py_lower_char_def non_embedded_font_def parse_pdffonts_def List.map_filter_def

lemmas stage_defs = enhance_pdf_for_compliance_def enhance_body_def
  create_pdf_with_icc_profiles_def final_rewrite_def analyze_fonts_in_pdf_def subprocess_run_def
  try_except_def os_rename_def os_remove_def os_path_exists_def read_file_def gs_cmd_def
  gs_fontinfo_cmd_def icc_cmd_def srgb_profile_def gray_profile_def register_liberation_fonts_def

lemmas world_defs = world_ok_def world_canvas_fails_def world_no_tools_def world_embed_fails_def
  sample_tool_def sample_json_loads_def request_def disk_with_profiles_def
  sample_request_def sample_body_def number_request_def number_body_def padding_request_def
  padding_body_def empty_request_def empty_body_def bang_request_def bang_body_def
  nan_request_def nan_body_def

lemmas handler_defs = lambda_handler_def handler_body_def parse_body_def py_json_loads_def
  py_get_def py_truthy_def process_request_def py_len_def b64decode_value_def py_type_name_def

lemma parse_table: "parse_pdffonts pdffonts_table = [''ABCDEF+Foo'']"
  by (simp add: pdffonts_table_def py_defs)

lemma decode_pdf: "b64decode ''JVBERi0xLjQ='' = Inr ''%PDF-1.4''"
  by code_simp

lemma decode_xml: "b64decode ''PGludm9pY2UvPg=='' = Inr ''<invoice/>''"
  by code_simp

lemma decode_bad: "b64decode ''JVBERi0xLjQ'' = Inl (Exc ''binascii.Error'' ''Incorrect padding'')"
  by code_simp

lemma parse_sample: "parse_body world_embed_fails (request sample_request) = Inr sample_body"
  by (simp add: parse_body_def py_json_loads_def world_defs)

lemma parse_number: "parse_body world_ok (request number_request) = Inr number_body"
  by (simp add: parse_body_def py_json_loads_def world_defs)

lemma parse_empty: "parse_body world_ok (request empty_request) = Inr empty_body"
  by (simp add: parse_body_def py_json_loads_def world_defs)

lemma parse_padding: "parse_body world_ok (request padding_request) = Inr padding_body"
  by (simp add: parse_body_def py_json_loads_def world_defs)

lemma lower_arial: "py_lower ''ArialMT'' = ''arialmt''"
  by code_simp

lemma lower_times: "py_lower ''Times-Roman'' = ''times-roman''"
  by code_simp

lemma embed_fails:
  "generate_from_binary world_embed_fails a b c d e = Inl (Exc ''Exception'' ''The XML file is not valid'')"
  by (simp add: world_embed_fails_def)

subsection \<open>The font inventory\<close>

lemma subprocess_run_fails:
  "tool_fails env cmd (map fs ins) \<Longrightarrow> \<exists>e. fst (subprocess_run env cmd ins out fs) = Inl e"
  by (auto simp: tool_fails_def subprocess_run_def split: prod.splits sum.splits)

lemma analyze_fonts_total: "\<exists>fonts. analyze_fonts_in_pdf env p fs = Inr fonts"
  by (auto simp: analyze_fonts_in_pdf_def try_except_def split: sum.splits)

text \<open>
  C7: whenever the \<open>gs\<close> invocation or the \<open>pdffonts\<close> invocation of
  \<open>analyze_fonts_in_pdf\<close> fails (the tool cannot be started, or it exits with a code other
  than 0), the function returns the empty set; it returns, and does not raise.
\<close>

theorem analyze_fonts_tool_failure:
  "tool_fails env (gs_fontinfo_cmd p) [fs p] \<or> tool_fails env [''pdffonts'', p] [fs p]
   \<Longrightarrow> analyze_fonts_in_pdf env p fs = Inr []"
  using subprocess_run_fails[of env "gs_fontinfo_cmd p" fs "[p]" None]
        subprocess_run_fails[of env "[''pdffonts'', p]" fs "[p]" None]
  by (auto simp: analyze_fonts_in_pdf_def try_except_def split: sum.splits)

theorem analyze_fonts_tool_failure_witness:
  "tool_fails world_no_tools (gs_fontinfo_cmd ''/tmp/tmpk3v9.pdf'') [Some ''%PDF-1.4'']
   \<and> analyze_fonts_in_pdf world_no_tools ''/tmp/tmpk3v9.pdf'' [''/tmp/tmpk3v9.pdf'' \<mapsto> ''%PDF-1.4''] = Inr []"
  using analyze_fonts_tool_failure[of world_no_tools "''/tmp/tmpk3v9.pdf''"
          "[''/tmp/tmpk3v9.pdf'' \<mapsto> ''%PDF-1.4'']"]
  by (simp add: tool_fails_def world_no_tools_def world_ok_def)

text \<open>
  C5: on a table as \<open>pdffonts\<close> prints it, \<open>analyze_fonts_in_pdf\<close> does not return the
  fonts whose \<open>emb\<close> column reads \<open>no\<close>. It tests the eighth field of each line, which is
  part of the object ID or, after a type of three words, the \<open>uni\<close> column: of the sample
  table it leaves out ArialMT and Helvetica (\<open>emb\<close> is \<open>no\<close>) and returns ABCDEF+Foo
  (\<open>emb\<close> is \<open>yes\<close>).
\<close>

theorem analyze_fonts_reads_eighth_field:
  "analyze_fonts_in_pdf world_ok ''/tmp/tmpk3v9.pdf'' [''/tmp/tmpk3v9.pdf'' \<mapsto> ''%PDF-1.4'']
     = Inr [''ABCDEF+Foo'']"
  by (simp add: analyze_fonts_in_pdf_def subprocess_run_def try_except_def gs_fontinfo_cmd_def
        world_ok_def sample_tool_def parse_table)

subsection \<open>The rewrite command\<close>

lemma py_in_sublist: "py_in needle hay = sublist needle hay"
  by (induction hay) (simp_all add: sublist_Cons_right)

lemma substitute_font_inj: "substitute_font f = substitute_font g \<longleftrightarrow> f = g"
  by (simp add: substitute_font_def)

lemma substitute_font_not_pdf: "substitute_font f \<noteq> stem @ ''.pdf''"
proof
  assume "substitute_font f = stem @ ''.pdf''"
  then have "last (substitute_font f) = last (stem @ ''.pdf'')" by simp
  then show False by (simp add: substitute_font_def)
qed

text \<open>
  C6: the command of the final rewrite holds the directive that substitutes LiberationSans
  for a font exactly when the font is in the set of non-embedded fonts and its name, in
  lower case, contains \<open>helvetica\<close> or \<open>arial\<close>.
\<close>

theorem substitution_directive_iff:
  "substitute_font f \<in> set (gs_cmd (stem @ ''.pdf'') final_pdf_path fonts)
   \<longleftrightarrow> f \<in> set fonts \<and> (sublist ''helvetica'' (py_lower f) \<or> sublist ''arial'' (py_lower f))"
  using substitute_font_not_pdf[of f stem]
  by (auto simp: gs_cmd_def substitute_font_inj wants_substitution_def py_in_sublist image_iff)
     (auto simp: substitute_font_def)

theorem substitution_directive_iff_witness:
  "''-dSubstituteFontName=/ArialMT/LiberationSans''
     \<in> set (gs_cmd ''/tmp/tmpk3v9.pdf'' ''/tmp/tmpk3v9.pdf.final.pdf'' [''ArialMT'', ''Times-Roman''])
   \<and> ''-dSubstituteFontName=/Times-Roman/LiberationSans''
     \<notin> set (gs_cmd ''/tmp/tmpk3v9.pdf'' ''/tmp/tmpk3v9.pdf.final.pdf'' [''ArialMT'', ''Times-Roman''])"
  using substitution_directive_iff[of "''ArialMT''" "''/tmp/tmpk3v9''" "''/tmp/tmpk3v9.pdf.final.pdf''"
          "[''ArialMT'', ''Times-Roman'']"]
        substitution_directive_iff[of "''Times-Roman''" "''/tmp/tmpk3v9''" "''/tmp/tmpk3v9.pdf.final.pdf''"
          "[''ArialMT'', ''Times-Roman'']"]
  by (simp add: substitute_font_def py_in_sublist[symmetric] lower_arial lower_times)

subsection \<open>The stage as a whole\<close>

text \<open>
  C1: the stage is not total. In a world where ReportLab cannot write the placeholder
  (here: the disk is full), \<open>create_pdf_with_icc_profiles\<close> raises, nothing in
  \<open>enhance_pdf_for_compliance\<close> catches the exception, and the stage raises it to the
  handler, which answers 500 although the embedding succeeded.
\<close>

theorem enhance_raises_when_canvas_fails:
  "fst (enhance_pdf_for_compliance world_canvas_fails ''%PDF-1.4'' Map.empty)
     = Inl (Exc ''OSError'' ''[Errno 28] No space left on device'')
   \<and> statusCode (fst (lambda_handler world_canvas_fails (request sample_request) Map.empty)) = 500"
  by (simp add: stage_defs handler_defs world_defs Let_def parse_table decode_pdf decode_xml
        error_response_def)

subsection \<open>The handler\<close>

lemma nonempty_stringE: "nonempty_string v \<Longrightarrow> \<exists>s. v = JStr s \<and> s \<noteq> []"
  by (cases v) (simp_all add: nonempty_string_def)

lemma nonempty_truthy: "nonempty_string v \<Longrightarrow> py_truthy v"
  by (cases v) (simp_all add: nonempty_string_def py_truthy_def)

lemma handler_raises:
  "handler_body env event fs = (Inl e, fs') \<Longrightarrow>
   lambda_handler env event fs
     = (\<lparr>statusCode = 500,
         headers = [(''Content-Type'', ''application/json''), (''Access-Control-Allow-Origin'', ''*'')],
         body = JObj [(''error'', JStr (''Failed to generate Factur-X PDF: '' @ exc_msg e))]\<rparr>,
        fs')"
  by (simp add: lambda_handler_def error_response_def cors_headers_def)

lemma handler_returns:
  "handler_body env event fs = (Inr resp, fs') \<Longrightarrow> lambda_handler env event fs = (resp, fs')"
  by (simp add: lambda_handler_def)

text \<open>The block after the validation, when every step up to the enhancement works.\<close>

lemma process_request_enhanced:
  assumes "p \<noteq> []" and "x \<noteq> []"
    and "b64decode p = Inr pdf_binary" and "b64decode x = Inr xml_binary"
    and "generate_from_binary env pdf_binary xml_binary c f l = Inr facturx_pdf"
    and "fst (enhance_pdf_for_compliance env facturx_pdf fs) = Inr enhanced_pdf"
  shows "fst (process_request env (JStr p) (JStr x) c f l fs)
           = Inr (success_response (b64encode enhanced_pdf))"
proof (cases "enhance_pdf_for_compliance env facturx_pdf fs")
  case (Pair r fs')
  with assms(6) have "enhance_pdf_for_compliance env facturx_pdf fs = (Inr enhanced_pdf, fs')"
    by simp
  with assms(1-5) show ?thesis
    by (simp add: process_request_def py_len_def b64decode_value_def)
qed

lemma handler_success:
  assumes "parse_body env event = Inr (JObj d)"
    and "py_get d ''pdfBase64'' (JStr []) = JStr p" and "p \<noteq> []"
    and "py_get d ''xmlBase64'' (JStr []) = JStr x" and "x \<noteq> []"
    and "b64decode p = Inr pdf_binary" and "b64decode x = Inr xml_binary"
    and "generate_from_binary env pdf_binary xml_binary (py_get d ''checkXsd'' (JBool True))
           (py_get d ''flavor'' (JStr ''factur-x'')) (py_get d ''level'' (JStr ''en16931''))
         = Inr facturx_pdf"
    and "fst (enhance_pdf_for_compliance env facturx_pdf fs) = Inr enhanced_pdf"
  shows "fst (lambda_handler env event fs) = success_response (b64encode enhanced_pdf)"
proof -
  let ?c = "py_get d ''checkXsd'' (JBool True)" and ?f = "py_get d ''flavor'' (JStr ''factur-x'')"
    and ?l = "py_get d ''level'' (JStr ''en16931'')"
  have "fst (process_request env (JStr p) (JStr x) ?c ?f ?l fs)
          = Inr (success_response (b64encode enhanced_pdf))"
    using assms(3,5,6,7,8,9) by (rule process_request_enhanced)
  then obtain fs' where
    "process_request env (JStr p) (JStr x) ?c ?f ?l fs
       = (Inr (success_response (b64encode enhanced_pdf)), fs')"
    by (cases "process_request env (JStr p) (JStr x) ?c ?f ?l fs") simp
  with assms(1-5) have
    "handler_body env event fs = (Inr (success_response (b64encode enhanced_pdf)), fs')"
    by (simp add: handler_body_def Let_def py_truthy_def)
  then show ?thesis by (simp add: handler_returns)
qed

lemma enhance_world_ok:
  "fst (enhance_pdf_for_compliance world_ok input Map.empty) = Inr ''%PDF-1.7 rewritten''"
  by (simp add: stage_defs world_ok_def sample_tool_def Let_def parse_table)

lemma embed_ok: "generate_from_binary world_ok a b c d e = Inr (a @ b)"
  by (simp add: world_ok_def)

lemma decode_bang: "b64decode ''JVBE!Ri0xLjQ='' = Inr ''%PDF-1.4''"
  by code_simp

lemma parse_bang: "parse_body world_ok (request bang_request) = Inr bang_body"
  by (simp add: parse_body_def py_json_loads_def world_defs)

lemma parse_nan: "parse_body world_ok (request nan_request) = Inr nan_body"
  by (simp add: parse_body_def py_json_loads_def world_defs)

lemma loads_garbage:
  "json_loads world_ok ''{not json''
     = Inl (Exc ''JSONDecodeError'' ''Expecting value: line 1 column 1 (char 0)'')"
  by (simp add: world_defs)

lemma request_body: "request text ''body'' = Some (JStr text)"
  by (simp add: request_def)

lemma parse_garbage:
  "parse_body world_ok (request ''{not json'')
     = Inl (Exc ''JSONDecodeError'' ''Expecting value: line 1 column 1 (char 0)'')"
  by (simp add: parse_body_def py_json_loads_def world_defs)

text \<open>
  C2, as the code has it: when the body parses to a JSON object in which \<open>pdfBase64\<close> or
  \<open>xmlBase64\<close> is absent or falsy (the empty string, null, false, a zero, an empty array or
  object), the handler answers with status code 400 and the body
  \<open>{"error": "Missing PDF or XML data"}\<close>, whatever the collaborators would do, and leaves
  the file system as it was.
\<close>

theorem missing_payload_is_400:
  "parse_body env event = Inr (JObj d) \<Longrightarrow>
   \<not> py_truthy (py_get d ''pdfBase64'' (JStr [])) \<or> \<not> py_truthy (py_get d ''xmlBase64'' (JStr [])) \<Longrightarrow>
   fst (lambda_handler env event fs)
     = \<lparr>statusCode = 400,
        headers = [(''Content-Type'', ''application/json''), (''Access-Control-Allow-Origin'', ''*'')],
        body = JObj [(''error'', JStr ''Missing PDF or XML data'')]\<rparr>
   \<and> snd (lambda_handler env event fs) = fs"
  by (auto simp: lambda_handler_def handler_body_def Let_def error_response_def cors_headers_def)

theorem missing_payload_is_400_witness:
  "statusCode (fst (lambda_handler world_ok (request empty_request) disk_with_profiles)) = 400
   \<and> body (fst (lambda_handler world_ok (request empty_request) disk_with_profiles))
       = JObj [(''error'', JStr ''Missing PDF or XML data'')]
   \<and> snd (lambda_handler world_ok (request empty_request) disk_with_profiles) = disk_with_profiles"
  using missing_payload_is_400[of world_ok "request empty_request"
          "[(''pdfBase64'', JStr []), (''xmlBase64'', JStr ''PGludm9pY2UvPg=='')]" disk_with_profiles]
  by (simp add: parse_empty empty_body_def py_get_def py_truthy_def)

text \<open>
  C2 as stated fails: a body whose \<open>pdfBase64\<close> is the number 5 has no non-empty
  \<open>pdfBase64\<close> string, and the handler answers 500, not 400 (the number is truthy, and
  \<open>len\<close> of it raises).
\<close>

theorem number_payload_is_500:
  "parse_body world_ok (request number_request) = Inr number_body
   \<and> \<not> nonempty_string
         (py_get [(''pdfBase64'', JNum 5), (''xmlBase64'', JStr ''PGludm9pY2UvPg=='')]
            ''pdfBase64'' (JStr []))
   \<and> statusCode (fst (lambda_handler world_ok (request number_request) Map.empty)) = 500"
  by (simp add: handler_defs world_defs nonempty_string_def error_response_def)

text \<open>
  C8: when both payloads are non-empty strings that decode and \<open>generate_from_binary\<close>
  raises, the handler answers with status code 500 and the body
  \<open>{"error": "Failed to generate Factur-X PDF: "\<close> followed by the message of the
  exception\<open>}\<close>; it is no success response, and the file system is as it was.
\<close>

theorem embedding_failure_is_500:
  "parse_body env event = Inr (JObj d) \<Longrightarrow>
   py_get d ''pdfBase64'' (JStr []) = JStr p \<Longrightarrow> p \<noteq> [] \<Longrightarrow>
   py_get d ''xmlBase64'' (JStr []) = JStr x \<Longrightarrow> x \<noteq> [] \<Longrightarrow>
   b64decode p = Inr pdf_binary \<Longrightarrow> b64decode x = Inr xml_binary \<Longrightarrow>
   generate_from_binary env pdf_binary xml_binary (py_get d ''checkXsd'' (JBool True))
     (py_get d ''flavor'' (JStr ''factur-x'')) (py_get d ''level'' (JStr ''en16931'')) = Inl e \<Longrightarrow>
   fst (lambda_handler env event fs)
     = \<lparr>statusCode = 500,
        headers = [(''Content-Type'', ''application/json''), (''Access-Control-Allow-Origin'', ''*'')],
        body = JObj [(''error'', JStr (''Failed to generate Factur-X PDF: '' @ exc_msg e))]\<rparr>
   \<and> snd (lambda_handler env event fs) = fs"
  by (simp add: lambda_handler_def handler_body_def Let_def process_request_def py_truthy_def
        py_len_def b64decode_value_def error_response_def cors_headers_def)

theorem embedding_failure_is_500_witness:
  "statusCode (fst (lambda_handler world_embed_fails (request sample_request) Map.empty)) = 500
   \<and> body (fst (lambda_handler world_embed_fails (request sample_request) Map.empty))
       = JObj [(''error'', JStr ''Failed to generate Factur-X PDF: The XML file is not valid'')]
   \<and> snd (lambda_handler world_embed_fails (request sample_request) Map.empty) = Map.empty"
  using embedding_failure_is_500[of world_embed_fails "request sample_request"
            "[(''pdfBase64'', JStr ''JVBERi0xLjQ=''), (''xmlBase64'', JStr ''PGludm9pY2UvPg=='')]"
            "''JVBERi0xLjQ=''" "''PGludm9pY2UvPg==''" "''%PDF-1.4''" "''<invoice/>''"
            "Exc ''Exception'' ''The XML file is not valid''" Map.empty]
  by (simp add: parse_sample sample_body_def py_get_def decode_pdf decode_xml embed_fails)

lemma process_request_undecodable:
  assumes "p \<noteq> []" and "x \<noteq> []"
    and "b64decode p = Inl e \<or> (\<not> isl (b64decode p) \<and> b64decode x = Inl e)"
  shows "process_request env (JStr p) (JStr x) c f l fs = (Inl e, fs)"
proof (cases "b64decode p")
  case (Inl e')
  with assms(3) have "e' = e" by auto
  with Inl show ?thesis by (simp add: process_request_def py_len_def b64decode_value_def)
next
  case (Inr pdf)
  with assms(3) have "b64decode x = Inl e" by auto
  with Inr show ?thesis by (simp add: process_request_def py_len_def b64decode_value_def)
qed

lemma undecodable_request_raises:
  assumes parsed: "parse_body env event = Inr (JObj d)"
    and a: "py_get d ''pdfBase64'' (JStr []) = JStr p" "p \<noteq> []"
    and b: "py_get d ''xmlBase64'' (JStr []) = JStr x" "x \<noteq> []"
    and bad: "b64decode p = Inl e \<or> (\<not> isl (b64decode p) \<and> b64decode x = Inl e)"
  shows "handler_body env event fs = (Inl e, fs)"
  using parsed a b process_request_undecodable[OF a(2) b(2) bad]
  by (simp add: handler_body_def Let_def py_truthy_def)

lemma unparsed_request_raises:
  "parse_body env event = Inl e \<Longrightarrow> handler_body env event fs = (Inl e, fs)"
  by (simp add: handler_body_def)

text \<open>
  C10, as the code has it: when both payloads are non-empty strings and
  \<open>base64.b64decode\<close> raises on one of them, and when the body is a text on which
  \<open>json.loads\<close> raises, the handler answers with status code 500 (not 400) and the body
  \<open>{"error": "Failed to generate Factur-X PDF: "\<close> followed by the message of that
  exception\<open>}\<close>, and the file system is as it was.
\<close>

theorem decoder_exception_is_500:
  "(parse_body env event = Inr (JObj d)
      \<and> py_get d ''pdfBase64'' (JStr []) = JStr p \<and> p \<noteq> []
      \<and> py_get d ''xmlBase64'' (JStr []) = JStr x \<and> x \<noteq> []
      \<and> (b64decode p = Inl e \<or> (\<not> isl (b64decode p) \<and> b64decode x = Inl e)))
    \<or> (event ''body'' = Some (JStr text) \<and> parse_body env event = Inl e)
   \<Longrightarrow> fst (lambda_handler env event fs)
         = \<lparr>statusCode = 500,
            headers = [(''Content-Type'', ''application/json''), (''Access-Control-Allow-Origin'', ''*'')],
            body = JObj [(''error'', JStr (''Failed to generate Factur-X PDF: '' @ exc_msg e))]\<rparr>
       \<and> snd (lambda_handler env event fs) = fs"
  using undecodable_request_raises[of env event d p x e fs] unparsed_request_raises[of env event e fs]
    handler_raises[of env event fs e fs]
  by auto

theorem decoder_exception_is_500_witness:
  "b64decode ''JVBERi0xLjQ'' = Inl (Exc ''binascii.Error'' ''Incorrect padding'')
   \<and> statusCode (fst (lambda_handler world_ok (request padding_request) Map.empty)) = 500
   \<and> body (fst (lambda_handler world_ok (request padding_request) Map.empty))
       = JObj [(''error'', JStr ''Failed to generate Factur-X PDF: Incorrect padding'')]
   \<and> json_loads world_ok ''{not json''
       = Inl (Exc ''JSONDecodeError'' ''Expecting value: line 1 column 1 (char 0)'')
   \<and> statusCode (fst (lambda_handler world_ok (request ''{not json'') Map.empty)) = 500
   \<and> body (fst (lambda_handler world_ok (request ''{not json'') Map.empty))
       = JObj [(''error'',
                JStr ''Failed to generate Factur-X PDF: Expecting value: line 1 column 1 (char 0)'')]"
  using decoder_exception_is_500[of world_ok "request padding_request"
          "[(''pdfBase64'', JStr ''JVBERi0xLjQ''), (''xmlBase64'', JStr ''PGludm9pY2UvPg=='')]"
          "''JVBERi0xLjQ''" "''PGludm9pY2UvPg==''"
          "Exc ''binascii.Error'' ''Incorrect padding''" "[]" Map.empty]
        decoder_exception_is_500[of world_ok "request ''{not json''" "[]" "[]" "[]"
          "Exc ''JSONDecodeError'' ''Expecting value: line 1 column 1 (char 0)''"
          "''{not json''" Map.empty]
  by (simp add: parse_padding padding_body_def py_get_def decode_bad parse_garbage loads_garbage
        request_body)

text \<open>
  C10 as stated fails, in both halves. The payload \<open>JVBE!Ri0xLjQ=\<close> is not valid base64
  (\<open>!\<close> is not in the alphabet and is not the padding character), yet the decoder, called
  without validation, skips the character, and the handler answers 200. The text
  \<open>{"pdfBase64": "", "xmlBase64": NaN}\<close> is not valid JSON, yet \<open>json.loads\<close> accepts it, and
  the handler answers 400.
\<close>

theorem lenient_decoders_are_not_500:
  "CHR ''!'' \<in> set ''JVBE!Ri0xLjQ='' \<and> b64_index (CHR ''!'') = None \<and> CHR ''!'' \<noteq> CHR ''=''
   \<and> parse_body world_ok (request bang_request) = Inr bang_body
   \<and> statusCode (fst (lambda_handler world_ok (request bang_request) Map.empty)) = 200
   \<and> parse_body world_ok (request nan_request) = Inr nan_body
   \<and> statusCode (fst (lambda_handler world_ok (request nan_request) Map.empty)) = 400"
proof -
  have "b64_index (CHR ''!'') = None"
    by code_simp
  moreover have "fst (lambda_handler world_ok (request bang_request) Map.empty)
                   = success_response (b64encode ''%PDF-1.7 rewritten'')"
    using handler_success[of world_ok "request bang_request"
            "[(''pdfBase64'', JStr ''JVBE!Ri0xLjQ=''), (''xmlBase64'', JStr ''PGludm9pY2UvPg=='')]"
            "''JVBE!Ri0xLjQ=''" "''PGludm9pY2UvPg==''" "''%PDF-1.4''" "''<invoice/>''"
            "''%PDF-1.4<invoice/>''" Map.empty "''%PDF-1.7 rewritten''"]
    by (simp add: parse_bang bang_body_def py_get_def decode_bang decode_xml embed_ok
          enhance_world_ok)
  moreover have "statusCode (fst (lambda_handler world_ok (request nan_request) Map.empty)) = 400"
    by (simp add: lambda_handler_def handler_body_def parse_nan nan_body_def py_get_def
          py_truthy_def error_response_def)
  ultimately show ?thesis
    by (simp add: parse_bang parse_nan success_response_def)
qed

end
